theory Spec2Isabelle
  imports Complex_Main
begin

section \<open>Strings, characters and the Unicode tables\<close>

text \<open>
  A Python \<open>str\<close> is a sequence of Unicode code points, and \<open>len\<close> counts code
  points. A character is modelled by its code point, a string by the list of them.
  \<open>py_ord\<close> names the code point of an ASCII character and \<open>str\<close> turns a literal
  into a Python string.
\<close>

type_synonym codepoint = nat
type_synonym pystr = "codepoint list"

definition py_ord :: "char \<Rightarrow> codepoint" where
  "py_ord c = of_char c"

definition str :: "string \<Rightarrow> pystr" where
  "str s = map py_ord s"

text \<open>
  \<open>str.isalpha\<close>, \<open>str.isdigit\<close>, \<open>str.isalnum\<close> and the whitespace that
  \<open>str.strip\<close> removes are decided by the Unicode character database of the Python
  interpreter, which is not part of the repository: the tables are a parameter.
\<close>

record unicode_db =
  isalpha :: "codepoint \<Rightarrow> bool"
  isdigit :: "codepoint \<Rightarrow> bool"
  isalnum :: "codepoint \<Rightarrow> bool"
  isspace :: "codepoint \<Rightarrow> bool"

text \<open>
  The tables restricted to ASCII, where Python's answers are: letters \<open>A-Z\<close> and
  \<open>a-z\<close>, digits \<open>0-9\<close>, alphanumeric is one of the two, whitespace is
  \<open>\t \n \v \f \r\<close>, the separators \<open>0x1c-0x1f\<close> and the space. It is used on
  ASCII strings only.
\<close>

definition ascii_db :: unicode_db where
  "ascii_db = \<lparr>
     isalpha = (\<lambda>c. (65 \<le> c \<and> c \<le> 90) \<or> (97 \<le> c \<and> c \<le> 122)),
     isdigit = (\<lambda>c. 48 \<le> c \<and> c \<le> 57),
     isalnum = (\<lambda>c. (65 \<le> c \<and> c \<le> 90) \<or> (97 \<le> c \<and> c \<le> 122) \<or> (48 \<le> c \<and> c \<le> 57)),
     isspace = (\<lambda>c. (9 \<le> c \<and> c \<le> 13) \<or> (28 \<le> c \<and> c \<le> 32)) \<rparr>"

section \<open>Input classifier\<close>

subsection \<open>The regular expression of \<open>is_ip_address\<close>\<close>

text \<open>
  The pattern uses literals, character ranges and sets, sequence, alternation, the
  optional \<open>?\<close>, the counted repetition \<open>{3}\<close> and the anchors \<open>^\<close> and \<open>$\<close>.
  \<open>matchp r s i\<close> lists, in the order a backtracking matcher tries them, the positions
  at which a match of \<open>r\<close> that starts at position \<open>i\<close> of \<open>s\<close> can end.
  Without the MULTILINE flag \<open>^\<close> matches at position 0 only, and \<open>$\<close> matches at the
  end of the string and just before a newline that ends the string.
\<close>

datatype regex =
    Bol
  | Eol
  | Lit codepoint
  | Range codepoint codepoint
  | OneOf "codepoint list"
  | Seq regex regex
  | Alt regex regex
  | Opt regex
  | Times nat regex

primrec matchp :: "regex \<Rightarrow> pystr \<Rightarrow> nat \<Rightarrow> nat list" where
  "matchp Bol s i = (if i = 0 then [i] else [])"
| "matchp Eol s i =
     (if i = length s \<or> (Suc i = length s \<and> s ! i = py_ord CHR 0x0A) then [i] else [])"
| "matchp (Lit c) s i = (if i < length s \<and> s ! i = c then [Suc i] else [])"
| "matchp (Range lo hi) s i =
     (if i < length s \<and> lo \<le> s ! i \<and> s ! i \<le> hi then [Suc i] else [])"
| "matchp (OneOf cs) s i = (if i < length s \<and> s ! i \<in> set cs then [Suc i] else [])"
| "matchp (Seq r1 r2) s i = concat (map (matchp r2 s) (matchp r1 s i))"
| "matchp (Alt r1 r2) s i = matchp r1 s i @ matchp r2 s i"
| "matchp (Opt r) s i = matchp r s i @ [i]"
| "matchp (Times n r) s i = ((\<lambda>ps. concat (map (matchp r s) ps)) ^^ n) [i]"

text \<open>\<open>re.match(pattern, s) is not None\<close>: some match starts at position 0.\<close>

definition re_match :: "regex \<Rightarrow> pystr \<Rightarrow> bool" where
  "re_match r s = (matchp r s 0 \<noteq> [])"

text \<open>\<open>[0-9]\<close>, \<open>[0-5]\<close>, \<open>[0-4]\<close> and \<open>[01]\<close> of a \<open>str\<close> pattern: ASCII digits only.\<close>

definition digit_to :: "char \<Rightarrow> regex" where
  "digit_to c = Range (py_ord CHR ''0'') (py_ord c)"

text \<open>\<open>(?:25[0-5]|2[0-4][0-9]|[01]?[0-9][0-9]?)\<close>\<close>

definition octet :: regex where
  "octet =
     Alt (Seq (Lit (py_ord CHR ''2'')) (Seq (Lit (py_ord CHR ''5'')) (digit_to CHR ''5'')))
    (Alt (Seq (Lit (py_ord CHR ''2'')) (Seq (digit_to CHR ''4'') (digit_to CHR ''9'')))
         (Seq (Opt (OneOf [py_ord CHR ''0'', py_ord CHR ''1'']))
              (Seq (digit_to CHR ''9'') (Opt (digit_to CHR ''9'')))))"

text \<open>\<open>^(?:octet\.){3}octet$\<close>\<close>

definition ip_pattern :: regex where
  "ip_pattern =
     Seq Bol (Seq (Times 3 (Seq octet (Lit (py_ord CHR ''.'')))) (Seq octet Eol))"

definition is_ip_address :: "pystr \<Rightarrow> bool" where
  "is_ip_address input_str = re_match ip_pattern input_str"

subsection \<open>\<open>is_registration_code\<close>\<close>

definition is_registration_code :: "unicode_db \<Rightarrow> pystr \<Rightarrow> bool" where
  "is_registration_code ud input_str =
     (if length input_str < 10 then False
      else if py_ord CHR ''.'' \<in> set input_str then False
      else
        let has_letter = list_ex (isalpha ud) input_str;
            has_digit = list_ex (isdigit ud) input_str
        in has_letter \<and> has_digit)"

subsection \<open>The three categories\<close>

text \<open>
  The classification is the \<open>if\<close>/\<open>elif\<close>/\<open>else\<close> chain at the head of
  \<open>generate_label\<close>: the address test first, the code test second.
\<close>

datatype category = NetworkAddress | OpaqueCode | Unrecognized

definition classify :: "unicode_db \<Rightarrow> pystr \<Rightarrow> category" where
  "classify ud device_input =
     (if is_ip_address device_input then NetworkAddress
      else if is_registration_code ud device_input then OpaqueCode
      else Unrecognized)"

section \<open>Python values and effects\<close>

text \<open>
  Exceptions are values. \<open>print\<close> appends a message to the standard output, and
  \<open>Canvas.save\<close> writes the document to the file system: both are components of an
  explicit world that every effectful function takes and returns.
\<close>

datatype py_error = AttributeError | DataOverflowError | ZeroDivisionError | OSError

datatype color = lightgrey | black

datatype 'img canvas_op =
    SetStrokeColor color
  | SetLineWidth real
  | Rect real real real real
  | DrawImage 'img real real real real bool
  | SetFont string nat
  | SetFillColor color
  | DrawString real real pystr

record 'img document =
  pagesize :: "real \<times> real"
  page_ops :: "'img canvas_op list"

datatype message =
    FetchingQr pystr
  | ErrorFetchingQr nat
  | FetchingRegistrationCode pystr
  | ErrorFetchingRegistrationCode nat
  | RequestFailed
  | WarningLogoNotFound
  | WarningLogoNotLoaded
  | DetectedIpAddress
  | FailedToFetch
  | RegistrationCodeIs pystr
  | DetectedRegistrationCode
  | UsingRegistrationCode pystr
  | ErrorInvalidInput
  | LabelSavedAs pystr
  | ErrorGeneratingPdf py_error

record 'img world =
  stdout :: "message list"
  files :: "pystr \<rightharpoonup> 'img document"

definition print :: "message \<Rightarrow> 'img world \<Rightarrow> 'img world" where
  "print m w = w\<lparr>stdout := stdout w @ [m]\<rparr>"

text \<open>
  The collaborators outside the repository are parameters: the HTTP client
  (\<open>requests.get\<close> with basic authentication), the JSON decoder of the response, the
  font metric of the canvas (\<open>stringWidth\<close>), the QR encoder (\<open>qrcode\<close>, \<open>None\<close> when
  it raises), the logo file and whether the output file can be written.
\<close>

datatype http_result = RequestException | Response nat pystr

text \<open>
  What \<open>reg_response.json()\<close> gives: a decoding error, an object (with the value of
  its \<open>registerCode\<close> member, if it has one; JSON \<open>null\<close> is \<open>None\<close>), or some other
  JSON value. A \<open>registerCode\<close> member that is neither a string nor \<open>null\<close> is not
  modelled.
\<close>

datatype json_result = JSONDecodeError | JsonObject "pystr option option" | JsonOther

datatype 'img logo_state = LogoMissing | LogoUnreadable | LogoOk 'img

datatype ec_level = ERROR_CORRECT_L | ERROR_CORRECT_M | ERROR_CORRECT_Q | ERROR_CORRECT_H

record qr_settings =
  qr_version :: nat
  qr_error_correction :: ec_level
  qr_box_size :: nat
  qr_border :: nat
  qr_fit :: bool

record 'img env =
  unicode :: unicode_db
  http_get :: "pystr \<Rightarrow> pystr \<Rightarrow> pystr \<Rightarrow> http_result"
  json_loads :: "pystr \<Rightarrow> json_result"
  stringWidth :: "pystr \<Rightarrow> string \<Rightarrow> nat \<Rightarrow> real"
  qrcode_png :: "qr_settings \<Rightarrow> pystr \<Rightarrow> 'img option"
  logo_file :: "'img logo_state"
  can_write :: "pystr \<Rightarrow> bool"

subsection \<open>Python primitives\<close>

text \<open>\<open>s[:k]\<close> and \<open>s[k:]\<close> for an integer \<open>k\<close>: a negative \<open>k\<close> counts from the end.\<close>

definition slice_to :: "'a list \<Rightarrow> int \<Rightarrow> 'a list" where
  "slice_to s k = (if 0 \<le> k then take (nat k) s else take (nat (int (length s) + k)) s)"

definition slice_from :: "'a list \<Rightarrow> int \<Rightarrow> 'a list" where
  "slice_from s k = (if 0 \<le> k then drop (nat k) s else drop (nat (int (length s) + k)) s)"

text \<open>\<open>range(a, b)\<close>\<close>

definition py_range :: "int \<Rightarrow> int \<Rightarrow> int list" where
  "py_range a b = [a..b - 1]"

text \<open>\<open>int(x)\<close> of a float truncates towards zero.\<close>

definition py_int :: "real \<Rightarrow> int" where
  "py_int x = (if 0 \<le> x then \<lfloor>x\<rfloor> else \<lceil>x\<rceil>)"

text \<open>\<open>s.strip()\<close>\<close>

definition strip :: "unicode_db \<Rightarrow> pystr \<Rightarrow> pystr" where
  "strip ud s = rev (dropWhile (isspace ud) (rev (dropWhile (isspace ud) s)))"

text \<open>\<open>not v\<close> for a value that is \<open>None\<close> or a string.\<close>

definition falsy :: "pystr option \<Rightarrow> bool" where
  "falsy v = (case v of None \<Rightarrow> True | Some s \<Rightarrow> s = [])"

definition the_str :: "pystr option \<Rightarrow> pystr" where
  "the_str v = (case v of None \<Rightarrow> [] | Some s \<Rightarrow> s)"

section \<open>Floating-point numbers\<close>

text \<open>
  A Python \<open>float\<close> is an IEEE 754 binary64 number, and every arithmetic operation
  returns the double nearest to the exact result, ties going to the even significand.
  A finite double is modelled by the real number it denotes, and \<open>double x\<close> is the
  double nearest to \<open>x\<close>: the significand has 53 bits, \<open>exponent\<close> is the binary
  exponent of the leading bit and \<open>bit_length\<close> is \<open>int.bit_length\<close>. The exponent
  range is not bounded: overflow to infinity, NaN and gradual underflow are not
  modelled. \<open>double\<close> of a decimal numeral is the value of that literal in the source;
  small integer constants are doubles themselves.
\<close>

function bit_length :: "int \<Rightarrow> int" where
  "bit_length n = (if n \<le> 0 then 0 else 1 + bit_length (n div 2))"
  by pat_completeness auto
termination
  by (relation "measure nat") auto

declare bit_length.simps [simp del]

definition exponent :: "real \<Rightarrow> int" where
  "exponent a =
     (if 1 \<le> a then bit_length \<lfloor>a\<rfloor> - 1
      else - bit_length (\<lceil>1 / a\<rceil> - 1))"

definition round_half_even :: "real \<Rightarrow> int" where
  "round_half_even y =
     (let m = \<lfloor>y\<rfloor>; f = y - of_int m
      in if f < 1 / 2 then m
         else if 1 / 2 < f then m + 1
         else if even m then m else m + 1)"

definition double :: "real \<Rightarrow> real" where
  "double x =
     (if x = 0 then 0
      else
        let ulp = 2 powi (exponent \<bar>x\<bar> - 52)
        in sgn x * of_int (round_half_even (\<bar>x\<bar> / ulp)) * ulp)"

definition fadd :: "real \<Rightarrow> real \<Rightarrow> real" where
  "fadd a b = double (a + b)"

definition fsub :: "real \<Rightarrow> real \<Rightarrow> real" where
  "fsub a b = double (a - b)"

definition fmul :: "real \<Rightarrow> real \<Rightarrow> real" where
  "fmul a b = double (a * b)"

text \<open>Division by a non-zero double; the sites that divide test for zero first.\<close>

definition fdiv :: "real \<Rightarrow> real \<Rightarrow> real" where
  "fdiv a b = double (a / b)"

text \<open>The conversion of an \<open>int\<close> operand of a mixed operation.\<close>

definition py_float :: "int \<Rightarrow> real" where
  "py_float n = double (of_int n)"

section \<open>Device data fetch\<close>

text \<open>
  The result is the pair \<open>(qr_svg, reg_code)\<close>, \<open>(None, None)\<close> after a failed
  request or a status other than 200. A response body that decodes to JSON but not to
  an object has no \<open>get\<close> method: the \<open>AttributeError\<close> is caught by neither
  handler and leaves the function.
\<close>

definition fetch_device_data ::
  "'img env \<Rightarrow> pystr \<Rightarrow> pystr \<Rightarrow> pystr \<Rightarrow> 'img world \<Rightarrow>
     (py_error + pystr option \<times> pystr option) \<times> 'img world" where
  "fetch_device_data env ip username password w =
     (let qr_url = str ''http://'' @ ip @ str ''/api/system/qr'';
          reg_url = str ''http://'' @ ip @ str ''/api/system/registerCode'';
          w1 = print (FetchingQr qr_url) w
      in (case http_get env qr_url username password of
            RequestException \<Rightarrow> (Inr (None, None), print RequestFailed w1)
          | Response qr_status qr_text \<Rightarrow>
              (if qr_status \<noteq> 200
               then (Inr (None, None), print (ErrorFetchingQr qr_status) w1)
               else
                 (let w2 = print (FetchingRegistrationCode reg_url) w1
                  in (case http_get env reg_url username password of
                        RequestException \<Rightarrow> (Inr (None, None), print RequestFailed w2)
                      | Response reg_status reg_text \<Rightarrow>
                          (if reg_status \<noteq> 200
                           then (Inr (None, None),
                                 print (ErrorFetchingRegistrationCode reg_status) w2)
                           else
                             (case json_loads env reg_text of
                                JSONDecodeError \<Rightarrow>
                                  (Inr (Some qr_text, Some (strip (unicode env) reg_text)), w2)
                              | JsonObject member \<Rightarrow>
                                  (Inr (Some qr_text,
                                        (case member of
                                           None \<Rightarrow> Some (strip (unicode env) reg_text)
                                         | Some v \<Rightarrow> v)), w2)
                              | JsonOther \<Rightarrow> (Inl AttributeError, w2))))))))"

section \<open>Scannable code image\<close>

text \<open>
  \<open>generate_qr_code\<close> hands the data to the encoder with fixed settings and returns
  the PNG buffer. Its second parameter, \<open>size_inches\<close>, is not used by the function
  and is left out.
\<close>

definition generate_qr_code :: "'img env \<Rightarrow> pystr \<Rightarrow> py_error + 'img" where
  "generate_qr_code env data =
     (case qrcode_png env
             \<lparr>qr_version = 1, qr_error_correction = ERROR_CORRECT_L,
              qr_box_size = 10, qr_border = 1, qr_fit = True\<rparr> data of
        None \<Rightarrow> Inl DataOverflowError
      | Some img_buffer \<Rightarrow> Inr img_buffer)"

section \<open>Label renderer\<close>

subsection \<open>Page geometry\<close>

text \<open>
  The local variables of \<open>create_pdf_label\<close> that place the text, as functions of the
  label size in inches, computed in doubles in the order the source writes them. The
  two sizes are floats: a real number that is not a double stands for the double
  nearest to it, which is what Python makes of a decimal such as \<open>1.905\<close>.
\<close>

definition inch :: real where
  "inch = 72"

definition margin :: real where
  "margin = fmul (double 0.1) inch"

definition width_pts :: "real \<Rightarrow> real" where
  "width_pts width_inches = fmul (double width_inches) inch"

definition height_pts :: "real \<Rightarrow> real" where
  "height_pts height_inches = fmul (double height_inches) inch"

definition qr_size :: "real \<Rightarrow> real" where
  "qr_size height_inches =
     min (fsub (height_pts height_inches) (fmul 2 margin)) (fmul (double 0.75) inch)"

definition qr_y :: "real \<Rightarrow> real" where
  "qr_y height_inches = fdiv (fsub (height_pts height_inches) (qr_size height_inches)) 2"

definition text_start_x :: "real \<Rightarrow> real" where
  "text_start_x height_inches =
     fadd (fadd margin (qr_size height_inches)) (fmul (double 0.1) inch)"

definition label_y :: "real \<Rightarrow> real" where
  "label_y height_inches = fmul (height_pts height_inches) (double 0.4)"

definition code_y :: "real \<Rightarrow> real" where
  "code_y height_inches = fmul (height_pts height_inches) (double 0.25)"

definition available_text_width :: "real \<Rightarrow> real \<Rightarrow> real" where
  "available_text_width width_inches height_inches =
     fsub (fsub (fsub (width_pts width_inches) (text_start_x height_inches)) margin)
          (fmul (double 0.05) inch)"

subsection \<open>The split point of the two-line layout\<close>

text \<open>
  The \<open>for\<close> loop over \<open>range(mid_point - 2, mid_point + 3)\<close> with its \<open>break\<close>:
  the first candidate that passes the two nested tests (\<open>logical_break\<close>), if there
  is one.
\<close>

definition logical_break :: "unicode_db \<Rightarrow> pystr \<Rightarrow> int \<Rightarrow> bool" where
  "logical_break ud reg_code i =
     (0 < i \<and> i < int (length reg_code) \<and>
      (\<not> isalnum ud (reg_code ! nat (i - 1)) \<or> \<not> isalnum ud (reg_code ! nat i)))"

fun find_break :: "unicode_db \<Rightarrow> pystr \<Rightarrow> int list \<Rightarrow> int option" where
  "find_break ud reg_code [] = None"
| "find_break ud reg_code (i # rest) =
     (if logical_break ud reg_code i then Some i else find_break ud reg_code rest)"

definition split_point :: "unicode_db \<Rightarrow> pystr \<Rightarrow> int" where
  "split_point ud reg_code =
     (let mid_point = int (length reg_code) div 2
      in (case find_break ud reg_code (py_range (mid_point - 2) (mid_point + 3)) of
            Some i \<Rightarrow> i
          | None \<Rightarrow> mid_point))"

subsection \<open>Adaptive code-text fitting\<close>

text \<open>
  Lines 179 to 218 of \<open>create_pdf_label\<close>: the canvas calls that draw the code text,
  or the exception of the division in the truncation step (Python raises
  \<open>ZeroDivisionError\<close> when a float is divided by zero). \<open>max_chars\<close> is
  \<open>int(len(reg_code) * available_text_width / text_width) - 3\<close>: the product is
  rounded to a double, then the quotient.
\<close>

definition max_chars :: "int \<Rightarrow> real \<Rightarrow> real \<Rightarrow> int" where
  "max_chars len available text_width =
     py_int (fdiv (fmul (py_float len) available) text_width) - 3"

definition draw_code_text ::
  "'img env \<Rightarrow> pystr \<Rightarrow> real \<Rightarrow> real \<Rightarrow> real \<Rightarrow> py_error + 'img canvas_op list" where
  "draw_code_text env reg_code x y available =
     (let text_width = stringWidth env reg_code ''Helvetica-Bold'' 7
      in if text_width \<le> available
         then Inr [SetFont ''Helvetica-Bold'' 7, DrawString x y reg_code]
         else
           let text_width = stringWidth env reg_code ''Helvetica-Bold'' 6
           in if text_width \<le> available
              then Inr [SetFont ''Helvetica-Bold'' 7, SetFont ''Helvetica-Bold'' 6,
                        DrawString x y reg_code]
              else
                let mid_point = split_point (unicode env) reg_code;
                    line1 = slice_to reg_code mid_point;
                    line2 = slice_from reg_code mid_point;
                    line1_width = stringWidth env line1 ''Helvetica-Bold'' 6;
                    line2_width = stringWidth env line2 ''Helvetica-Bold'' 6
                in if line1_width \<le> available \<and> line2_width \<le> available
                   then Inr [SetFont ''Helvetica-Bold'' 7, SetFont ''Helvetica-Bold'' 6,
                             DrawString x (fadd y (fmul (double 0.05) inch)) line1,
                             DrawString x (fsub y (fmul (double 0.05) inch)) line2]
                   else if text_width = 0 then Inl ZeroDivisionError
                   else
                     let truncated_code =
                           slice_to reg_code (max_chars (int (length reg_code)) available text_width)
                           @ str ''...''
                     in Inr [SetFont ''Helvetica-Bold'' 7, SetFont ''Helvetica-Bold'' 6,
                             DrawString x y truncated_code])"

subsection \<open>\<open>create_pdf_label\<close>\<close>

text \<open>
  The canvas collects the drawing calls in order and \<open>save\<close> writes them to the
  output path. An exception leaves the function before \<open>save\<close>: the messages
  printed so far stay, no file is written. The parameter \<open>qr_data_or_buffer\<close> is not
  used by the function (the caller passes \<open>None\<close>) and is left out.
\<close>

definition draw_logo ::
  "'img env \<Rightarrow> real \<Rightarrow> real \<Rightarrow> 'img world \<Rightarrow> 'img canvas_op list \<times> 'img world" where
  "draw_logo env width_points height_points w =
     (let logo_height = fmul (double 0.25) inch;
          logo_width = fmul (double 0.6) inch;
          logo_x = fsub (fsub width_points margin) logo_width;
          logo_y = fsub (fsub height_points margin) logo_height
      in (case logo_file env of
            LogoOk logo_image \<Rightarrow>
              ([DrawImage logo_image logo_x logo_y logo_width logo_height True], w)
          | LogoMissing \<Rightarrow> ([], print WarningLogoNotFound w)
          | LogoUnreadable \<Rightarrow> ([], print WarningLogoNotLoaded w)))"

definition create_pdf_label ::
  "'img env \<Rightarrow> pystr \<Rightarrow> pystr \<Rightarrow> real \<Rightarrow> real \<Rightarrow> 'img world \<Rightarrow>
     (py_error + unit) \<times> 'img world" where
  "create_pdf_label env reg_code output_path width_inches height_inches w =
     (let border = [SetStrokeColor lightgrey, SetLineWidth 0.5,
                    Rect 2 2 (fsub (width_pts width_inches) 4)
                      (fsub (height_pts height_inches) 4)]
      in (case generate_qr_code env reg_code of
            Inl e \<Rightarrow> (Inl e, w)
          | Inr qr_image \<Rightarrow>
              (let qr = [DrawImage qr_image margin (qr_y height_inches)
                          (qr_size height_inches) (qr_size height_inches) False];
                   (logo, w1) = draw_logo env (width_pts width_inches)
                                  (height_pts height_inches) w;
                   caption = [SetFont ''Helvetica-Bold'' 9, SetFillColor black,
                              DrawString (text_start_x height_inches) (label_y height_inches)
                                (str ''Registration Code'')]
               in (case draw_code_text env reg_code (text_start_x height_inches)
                         (code_y height_inches)
                         (available_text_width width_inches height_inches) of
                     Inl e \<Rightarrow> (Inl e, w1)
                   | Inr code_text \<Rightarrow>
                       (if can_write env output_path
                        then (Inr (),
                              w1\<lparr>files := (files w1)(output_path \<mapsto>
                                    \<lparr>pagesize = (width_pts width_inches,
                                                 height_pts height_inches),
                                     page_ops = border @ qr @ logo @ caption @ code_text\<rparr>)\<rparr>)
                        else (Inl OSError, w1))))))"

section \<open>\<open>generate_label\<close>\<close>

text \<open>
  The \<open>try\<close> block that ends \<open>generate_label\<close>: every exception of
  \<open>create_pdf_label\<close> is caught, reported and turned into the result \<open>None\<close>.
\<close>

definition render_label ::
  "'img env \<Rightarrow> pystr \<Rightarrow> pystr \<Rightarrow> real \<Rightarrow> real \<Rightarrow> 'img world \<Rightarrow>
     (py_error + pystr option) \<times> 'img world" where
  "render_label env reg_code output_path width_inches height_inches w =
     (case create_pdf_label env reg_code output_path width_inches height_inches w of
        (Inr u, w1) \<Rightarrow> (Inr (Some output_path), print (LabelSavedAs output_path) w1)
      | (Inl e, w1) \<Rightarrow> (Inr None, print (ErrorGeneratingPdf e) w1))"

text \<open>
  The call of \<open>fetch_device_data\<close> is outside the \<open>try\<close> block, so an exception
  it lets through leaves \<open>generate_label\<close> too. After the truthiness test
  \<open>reg_code\<close> is a non-empty string, which \<open>the_str\<close> reads.
\<close>

definition generate_label ::
  "'img env \<Rightarrow> pystr \<Rightarrow> pystr \<Rightarrow> real \<Rightarrow> real \<Rightarrow> pystr \<Rightarrow> pystr \<Rightarrow> 'img world \<Rightarrow>
     (py_error + pystr option) \<times> 'img world" where
  "generate_label env device_input output_path width_inches height_inches username password w =
     (if is_ip_address device_input then
        (case fetch_device_data env device_input username password
                (print DetectedIpAddress w) of
           (Inl e, w1) \<Rightarrow> (Inl e, w1)
         | (Inr (qr_svg, reg_code), w1) \<Rightarrow>
             if falsy qr_svg \<or> falsy reg_code
             then (Inr None, print FailedToFetch w1)
             else render_label env (the_str reg_code) output_path width_inches height_inches
                    (print (RegistrationCodeIs (the_str reg_code)) w1))
      else if is_registration_code (unicode env) device_input then
        render_label env device_input output_path width_inches height_inches
          (print (UsingRegistrationCode device_input) (print DetectedRegistrationCode w))
      else (Inr None, print ErrorInvalidInput w))"

section \<open>A concrete environment\<close>

text \<open>
  The advance widths (in thousandths of the font size) of the Helvetica-Bold glyphs
  that the examples below use, from the font's AFM metrics; the canvas measures a
  string of a standard font as \<open>sum(widths) * 0.001 * size\<close>, in doubles.
  The table is partial: a character it does not list gets 0 here, and no example
  uses one.
\<close>

definition helvetica_bold_glyph :: "codepoint \<Rightarrow> nat" where
  "helvetica_bold_glyph c =
     (if c = py_ord CHR ''-'' then 333
      else if c = py_ord CHR ''.'' then 278
      else if py_ord CHR ''0'' \<le> c \<and> c \<le> py_ord CHR ''9'' then 556
      else if c = py_ord CHR ''A'' then 722
      else if c = py_ord CHR ''C'' then 722
      else if c = py_ord CHR ''F'' then 611
      else if c = py_ord CHR ''N'' then 722
      else if c = py_ord CHR ''R'' then 722
      else if c = py_ord CHR ''W'' then 944
      else if c = py_ord CHR ''X'' then 667
      else if c = py_ord CHR ''i'' then 278
      else 0)"

definition helvetica_bold_width :: "pystr \<Rightarrow> string \<Rightarrow> nat \<Rightarrow> real" where
  "helvetica_bold_width text font_name font_size =
     fmul (fmul (py_float (int (sum_list (map helvetica_bold_glyph text)))) (double 0.001))
          (py_float (int font_size))"

text \<open>
  An environment for the examples: the ASCII tables, the metric above, a QR encoder
  that accepts every payload (the image is represented by its payload), no logo file,
  a writable output, and no device on the network.
\<close>

definition demo_env :: "pystr env" where
  "demo_env = \<lparr>
     unicode = ascii_db,
     http_get = (\<lambda>url username password. RequestException),
     json_loads = (\<lambda>body. JSONDecodeError),
     stringWidth = helvetica_bold_width,
     qrcode_png = (\<lambda>settings data. Some data),
     logo_file = LogoMissing,
     can_write = (\<lambda>path. True) \<rparr>"

definition empty_world :: "pystr world" where
  "empty_world = \<lparr>stdout = [], files = Map.empty\<rparr>"

text \<open>
  A device that answers both requests with status 200, the QR request with an empty
  body and the registration-code request with a plain-text code.
\<close>

definition empty_qr_device :: "pystr env" where
  "empty_qr_device = demo_env\<lparr>http_get :=
     (\<lambda>url username password.
        if url = str ''http://192.168.1.100/api/system/qr'' then Response 200 []
        else Response 200 (str ''R57NX98AAFC62AF2A''))\<rparr>"

section \<open>Vocabulary of the properties\<close>

text \<open>The canvas calls that put text on the page, and those that put an image.\<close>

fun is_text_op :: "'img canvas_op \<Rightarrow> bool" where
  "is_text_op (SetFont font_name font_size) = True"
| "is_text_op (DrawString x y t) = True"
| "is_text_op _ = False"

fun is_image_op :: "'img canvas_op \<Rightarrow> bool" where
  "is_image_op (DrawImage img x y width height preserve) = True"
| "is_image_op _ = False"

text \<open>
  The specification's wording of a natural break, not the source's test: position \<open>i\<close>
  is a boundary between a non-alphanumeric and an alphanumeric character, or vice
  versa. It is compared with \<open>logical_break\<close> below.
\<close>

definition natural_boundary :: "unicode_db \<Rightarrow> pystr \<Rightarrow> int \<Rightarrow> bool" where
  "natural_boundary ud reg_code i =
     (0 < i \<and> i < int (length reg_code) \<and>
      isalnum ud (reg_code ! nat (i - 1)) \<noteq> isalnum ud (reg_code ! nat i))"

section \<open>Properties of the classifier\<close>

lemma matchp_Lit_in_set:
  assumes "j \<in> set (matchp (Lit c) s i)"
  shows "c \<in> set s"
proof -
  from assms have "i < length s" and "s ! i = c"
    by (auto split: if_splits)
  then show ?thesis
    using nth_mem by blast
qed

lemma matchp_Seq_Lit_in_set:
  assumes "j \<in> set (matchp (Seq r (Lit c)) s i)"
  shows "c \<in> set s"
proof -
  from assms obtain k where "j \<in> set (matchp (Lit c) s k)"
    by auto
  then show ?thesis
    by (rule matchp_Lit_in_set)
qed

lemma matchp_Times_Seq_Lit_in_set:
  assumes "j \<in> set (matchp (Times (Suc n) (Seq r (Lit c))) s i)"
  shows "c \<in> set s"
proof -
  from assms obtain p where "j \<in> set (matchp (Seq r (Lit c)) s p)"
    by auto
  then show ?thesis
    by (rule matchp_Seq_Lit_in_set)
qed

text \<open>Every string that the address pattern matches contains a dot.\<close>

lemma is_ip_address_has_dot:
  assumes "is_ip_address s"
  shows "py_ord CHR ''.'' \<in> set s"
proof -
  let ?dotted = "Times 3 (Seq octet (Lit (py_ord CHR ''.'')))"
  from assms obtain j where "j \<in> set (matchp ip_pattern s 0)"
    unfolding is_ip_address_def re_match_def by (cases "matchp ip_pattern s 0") auto
  then obtain k where "k \<in> set (matchp ?dotted s 0)"
    unfolding ip_pattern_def by (auto split: if_splits)
  then have "k \<in> set (matchp (Times (Suc 2) (Seq octet (Lit (py_ord CHR ''.'')))) s 0)"
    by (simp only: numeral_3_eq_3 numeral_2_eq_2)
  then show ?thesis
    by (rule matchp_Times_Seq_Lit_in_set)
qed

lemma is_registration_code_no_dot:
  assumes "is_registration_code ud s"
  shows "py_ord CHR ''.'' \<notin> set s"
  using assms by (auto simp: is_registration_code_def split: if_splits)

lemma demo_is_ip_address: "is_ip_address (str ''192.168.1.100'')"
  by (simp add: is_ip_address_def re_match_def ip_pattern_def octet_def digit_to_def
      str_def py_ord_def eval_nat_numeral)

text \<open>
  C5. Every string is put in exactly one of the three categories: it is a
  NetworkAddress exactly when \<open>is_ip_address\<close> holds, an OpaqueCode exactly when
  \<open>is_registration_code\<close> holds, Unrecognized exactly when neither holds, and the two
  predicates are never both true of the same string.
\<close>

theorem classification_total_exclusive:
  "(classify ud s = NetworkAddress \<longleftrightarrow> is_ip_address s) \<and>
   (classify ud s = OpaqueCode \<longleftrightarrow> is_registration_code ud s) \<and>
   (classify ud s = Unrecognized \<longleftrightarrow> \<not> is_ip_address s \<and> \<not> is_registration_code ud s) \<and>
   \<not> (is_ip_address s \<and> is_registration_code ud s)"
proof -
  have excl: "\<not> (is_ip_address s \<and> is_registration_code ud s)"
    using is_ip_address_has_dot is_registration_code_no_dot by blast
  then show ?thesis
    by (auto simp: classify_def)
qed

text \<open>The address \<open>192.168.1.100\<close> is a NetworkAddress and not a registration code.\<close>

theorem classification_total_exclusive_witness:
  "classify ascii_db (str ''192.168.1.100'') = NetworkAddress \<and>
   \<not> is_registration_code ascii_db (str ''192.168.1.100'')"
  using classification_total_exclusive [of ascii_db "str ''192.168.1.100''"] demo_is_ip_address
  by blast

text \<open>
  C6. A string of length at least 10 with no dot, at least one alphabetic character
  and at least one digit character satisfies \<open>is_registration_code\<close>, and its
  category is OpaqueCode.
\<close>

theorem registration_code_accepted:
  assumes "10 \<le> length s"
    and "py_ord CHR ''.'' \<notin> set s"
    and "\<exists>c \<in> set s. isalpha ud c"
    and "\<exists>c \<in> set s. isdigit ud c"
  shows "is_registration_code ud s \<and> classify ud s = OpaqueCode"
proof -
  from assms have reg: "is_registration_code ud s"
    by (simp add: is_registration_code_def list_ex_iff)
  from assms(2) have "\<not> is_ip_address s"
    using is_ip_address_has_dot by blast
  with reg show ?thesis
    by (simp add: classify_def)
qed

theorem registration_code_accepted_witness:
  "is_registration_code ascii_db (str ''R57NX98AAFC62AF2A'') \<and>
   classify ascii_db (str ''R57NX98AAFC62AF2A'') = OpaqueCode"
  using registration_code_accepted [of "str ''R57NX98AAFC62AF2A''" ascii_db]
  by (simp add: str_def py_ord_def ascii_db_def)

section \<open>Properties of the rounding\<close>

text \<open>
  \<open>bit_length\<close> brackets a positive integer between two powers of two, so two to
  the \<open>exponent\<close> of a positive number is at most that number, and the nearest
  double differs from a number by at most that number over \<open>2 ^ 53\<close>.
\<close>

lemma bit_length_nonneg: "0 \<le> bit_length n"
proof (induction n rule: bit_length.induct)
  case (1 n)
  then show ?case
    by (cases "n \<le> 0") (simp_all add: bit_length.simps [of n])
qed

lemma bit_length_upper: "0 \<le> n \<Longrightarrow> n < 2 ^ nat (bit_length n)"
proof (induction n rule: bit_length.induct)
  case (1 n)
  show ?case
  proof (cases "n \<le> 0")
    case True
    with "1.prems" show ?thesis by (simp add: bit_length.simps [of n])
  next
    case False
    then have pos: "0 \<le> n div 2" by simp
    from "1.IH" [OF False pos] have "n div 2 < 2 ^ nat (bit_length (n div 2))" .
    then have "n < 2 * 2 ^ nat (bit_length (n div 2))" by linarith
    moreover have "nat (bit_length n) = Suc (nat (bit_length (n div 2)))"
      using False bit_length_nonneg [of "n div 2"] by (simp add: bit_length.simps [of n] nat_add_distrib)
    ultimately show ?thesis by simp
  qed
qed

lemma bit_length_lower: "1 \<le> n \<Longrightarrow> 2 ^ nat (bit_length n - 1) \<le> n"
proof (induction n rule: bit_length.induct)
  case (1 n)
  from "1.prems" have npos: "\<not> n \<le> 0" by simp
  show ?case
  proof (cases "n = 1")
    case True
    then show ?thesis by (simp add: bit_length.simps [of 1] bit_length.simps [of 0])
  next
    case False
    with "1.prems" have half: "1 \<le> n div 2" by simp
    from "1.IH" [OF npos half] have "2 ^ nat (bit_length (n div 2) - 1) \<le> n div 2" .
    then have "2 * 2 ^ nat (bit_length (n div 2) - 1) \<le> n" by linarith
    moreover have "1 \<le> bit_length (n div 2)"
      using half bit_length_nonneg [of "n div 2 div 2"] by (simp add: bit_length.simps [of "n div 2"])
    then have "nat (bit_length n - 1) = Suc (nat (bit_length (n div 2) - 1))"
      using npos by (simp add: bit_length.simps [of n] nat_diff_distrib)
    ultimately show ?thesis by simp
  qed
qed

lemma exponent_le:
  assumes "0 < a"
  shows "2 powi (exponent a) \<le> a"
proof (cases "1 \<le> a")
  case True
  then have m: "1 \<le> \<lfloor>a\<rfloor>" by simp
  have b1: "1 \<le> bit_length \<lfloor>a\<rfloor>"
    using m bit_length_nonneg [of "\<lfloor>a\<rfloor> div 2"] by (simp add: bit_length.simps [of "\<lfloor>a\<rfloor>"])
  from bit_length_lower [OF m] have "(2::int) ^ nat (bit_length \<lfloor>a\<rfloor> - 1) \<le> \<lfloor>a\<rfloor>" .
  then have "real_of_int ((2::int) ^ nat (bit_length \<lfloor>a\<rfloor> - 1)) \<le> real_of_int \<lfloor>a\<rfloor>"
    by (simp only: of_int_le_iff)
  then have "(2::real) ^ nat (bit_length \<lfloor>a\<rfloor> - 1) \<le> a"
    by (simp add: le_floor_iff)
  moreover have "(2::real) powi (exponent a) = 2 ^ nat (bit_length \<lfloor>a\<rfloor> - 1)"
    using True b1 by (simp add: exponent_def power_int_def)
  ultimately show ?thesis by simp
next
  case False
  with assms have inv: "1 < 1 / a" by simp
  let ?c = "\<lceil>1 / a\<rceil>"
  let ?b = "bit_length (?c - 1)"
  have "1 / a \<le> real_of_int ?c" by (rule le_of_int_ceiling)
  with inv have "1 < real_of_int ?c" by linarith
  then have c: "2 \<le> ?c" by linarith
  then have "0 \<le> ?c - 1" by linarith
  from bit_length_upper [OF this] have "?c \<le> 2 ^ nat ?b" by simp
  then have "real_of_int ?c \<le> real_of_int (2 ^ nat ?b)"
    by (simp only: of_int_le_iff)
  then have "1 / a \<le> 2 ^ nat ?b"
    by (simp add: ceiling_le_iff)
  then have "1 / 2 ^ nat ?b \<le> a"
    using assms by (simp add: field_simps)
  moreover have "(2::real) powi (exponent a) = 1 / 2 ^ nat ?b"
    using False bit_length_nonneg [of "?c - 1"]
    by (simp add: exponent_def power_int_def field_simps)
  ultimately show ?thesis by simp
qed

lemma round_half_even_error: "\<bar>real_of_int (round_half_even y) - y\<bar> \<le> 1 / 2"
  unfolding round_half_even_def Let_def by (auto simp: abs_le_iff)

lemma double_error: "\<bar>double x - x\<bar> \<le> \<bar>x\<bar> / 2 ^ 53"
proof (cases "x = 0")
  case True
  then show ?thesis by (simp add: double_def)
next
  case False
  let ?a = "\<bar>x\<bar>"
  let ?ulp = "(2::real) powi (exponent ?a - 52)"
  let ?y = "?a / ?ulp"
  let ?r = "real_of_int (round_half_even ?y)"
  have ulp_pos: "0 < ?ulp" by simp
  have d: "double x = sgn x * ?r * ?ulp"
    using False by (simp add: double_def Let_def)
  have x: "x = sgn x * ?y * ?ulp"
    using ulp_pos by (simp add: sgn_mult_abs)
  have "double x - x = sgn x * (?r - ?y) * ?ulp"
    by (subst d, subst x) (simp add: algebra_simps)
  then have "\<bar>double x - x\<bar> = \<bar>?r - ?y\<bar> * ?ulp"
    using False ulp_pos by (simp add: abs_mult abs_sgn_eq)
  also have "\<dots> \<le> (1 / 2) * ?ulp"
    using round_half_even_error [of ?y] ulp_pos by (intro mult_right_mono) simp_all
  also have "\<dots> = 2 powi (exponent ?a) / 2 ^ 53"
    by (simp add: power_int_diff)
  also have "\<dots> \<le> ?a / 2 ^ 53"
    using exponent_le [of ?a] False by (simp add: divide_right_mono)
  finally show ?thesis .
qed

text \<open>
  With the three roundings of \<open>int(len(reg_code) * available_text_width / text_width)\<close>
  bounded, the character budget stays below the length of a code of at most
  \<open>2 ^ 50\<close> characters whenever the available width is non-negative and smaller than
  the width of the code.
\<close>

lemma double_bounds:
  assumes "0 \<le> x"
  shows "0 \<le> double x" and "double x \<le> x * (1 + 1 / 2 ^ 53)"
proof -
  from double_error [of x] assms have e: "\<bar>double x - x\<bar> \<le> x / 2 ^ 53"
    by simp
  have small: "x / 2 ^ 53 \<le> x"
    using assms by (simp add: field_simps)
  from e small show "0 \<le> double x"
    by linarith
  have "x * (1 + 1 / 2 ^ 53) = x + x / 2 ^ 53"
    by (simp add: algebra_simps)
  with e show "double x \<le> x * (1 + 1 / 2 ^ 53)"
    by linarith
qed

lemma max_chars_less:
  assumes n: "0 \<le> n" "n \<le> 2 ^ 50"
    and a: "0 \<le> available" "available < text_width"
  shows "max_chars n available text_width < n"
proof -
  let ?u = "(1::real) / 2 ^ 53"
  let ?n = "py_float n"
  let ?p = "fmul ?n available"
  let ?q = "fdiv ?p text_width"
  have tw: "0 < text_width" using a by linarith
  have n_real: "0 \<le> real_of_int n" using n by simp
  have n1: "0 \<le> ?n" and n2: "?n \<le> real_of_int n * (1 + ?u)"
    unfolding py_float_def using double_bounds [OF n_real] by simp_all
  have na: "0 \<le> ?n * available" using n1 a by simp
  have p1: "0 \<le> ?p" and p2: "?p \<le> ?n * available * (1 + ?u)"
    unfolding fmul_def using double_bounds [OF na] by simp_all
  have q0: "0 \<le> ?p / text_width" using p1 tw by simp
  have q1: "0 \<le> ?q" and q2: "?q \<le> ?p / text_width * (1 + ?u)"
    unfolding fdiv_def using double_bounds [OF q0] by simp_all
  have "?n * available * (1 + ?u) \<le> ?n * text_width * (1 + ?u)"
    using n1 a by (intro mult_right_mono mult_left_mono) simp_all
  with p2 have "?p \<le> ?n * (1 + ?u) * text_width"
    by (simp add: mult.commute mult.left_commute)
  then have "?p / text_width \<le> ?n * (1 + ?u)"
    using tw by (simp add: pos_divide_le_eq)
  then have "?p / text_width * (1 + ?u) \<le> ?n * (1 + ?u) * (1 + ?u)"
    by (intro mult_right_mono) simp_all
  with q2 have "?q \<le> ?n * ((1 + ?u) * (1 + ?u))"
    by (simp add: mult.assoc)
  also have "\<dots> \<le> (real_of_int n * (1 + ?u)) * ((1 + ?u) * (1 + ?u))"
    using n2 by (intro mult_right_mono) simp_all
  also have "\<dots> = real_of_int n * ((1 + ?u) * (1 + ?u) * (1 + ?u))"
    by (simp add: mult.assoc)
  also have "\<dots> \<le> real_of_int n * (1 + 4 * ?u)"
    using n_real by (intro mult_left_mono) simp_all
  also have "\<dots> = real_of_int n + real_of_int n * (4 * ?u)"
    by (simp add: algebra_simps)
  also have "\<dots> \<le> real_of_int n + 2 ^ 50 * (4 * ?u)"
  proof -
    have "real_of_int n \<le> 2 ^ 50" using n(2) by (metis of_int_le_iff of_int_numeral of_int_power)
    then show ?thesis by (intro add_left_mono mult_right_mono) simp_all
  qed
  also have "\<dots> = real_of_int n + 1 / 2"
    by simp
  finally have "?q \<le> real_of_int n + 1 / 2" .
  then have "\<lfloor>?q\<rfloor> \<le> n"
    by (simp add: floor_le_iff)
  with q1 show ?thesis
    by (simp add: max_chars_def py_int_def)
qed

section \<open>Properties of the label renderer\<close>

subsection \<open>The branches of the text-fitting step\<close>

lemma slice_to_from: "slice_to s k @ slice_from s k = s"
  by (simp add: slice_to_def slice_from_def)

lemma draw_code_text_size_7:
  assumes "stringWidth env reg_code ''Helvetica-Bold'' 7 \<le> available"
  shows "draw_code_text env reg_code x y available =
           Inr [SetFont ''Helvetica-Bold'' 7, DrawString x y reg_code]"
  using assms by (simp add: draw_code_text_def)


lemma draw_code_text_two_lines:
  assumes "\<not> stringWidth env reg_code ''Helvetica-Bold'' 7 \<le> available"
    and "\<not> stringWidth env reg_code ''Helvetica-Bold'' 6 \<le> available"
    and "stringWidth env (slice_to reg_code (split_point (unicode env) reg_code))
           ''Helvetica-Bold'' 6 \<le> available"
    and "stringWidth env (slice_from reg_code (split_point (unicode env) reg_code))
           ''Helvetica-Bold'' 6 \<le> available"
  shows "draw_code_text env reg_code x y available =
           Inr [SetFont ''Helvetica-Bold'' 7, SetFont ''Helvetica-Bold'' 6,
                DrawString x (fadd y (fmul (double 0.05) inch))
                  (slice_to reg_code (split_point (unicode env) reg_code)),
                DrawString x (fsub y (fmul (double 0.05) inch))
                  (slice_from reg_code (split_point (unicode env) reg_code))]"
  using assms by (simp add: draw_code_text_def Let_def)

lemma draw_code_text_truncated:
  assumes "\<not> stringWidth env reg_code ''Helvetica-Bold'' 7 \<le> available"
    and "\<not> stringWidth env reg_code ''Helvetica-Bold'' 6 \<le> available"
    and "\<not> (stringWidth env (slice_to reg_code (split_point (unicode env) reg_code))
                ''Helvetica-Bold'' 6 \<le> available \<and>
             stringWidth env (slice_from reg_code (split_point (unicode env) reg_code))
                ''Helvetica-Bold'' 6 \<le> available)"
    and "stringWidth env reg_code ''Helvetica-Bold'' 6 \<noteq> 0"
  shows "draw_code_text env reg_code x y available =
           Inr [SetFont ''Helvetica-Bold'' 7, SetFont ''Helvetica-Bold'' 6,
                DrawString x y
                  (slice_to reg_code
                     (max_chars (int (length reg_code)) available
                        (stringWidth env reg_code ''Helvetica-Bold'' 6))
                   @ str ''...'')]"
  using assms by (simp add: draw_code_text_def Let_def)

text \<open>
  The step raises exactly when the truncation branch is reached with a code whose
  width at size 6 is zero, which needs a negative available width.
\<close>

lemma draw_code_text_fails_iff:
  "draw_code_text env reg_code x y available = Inl e \<longleftrightarrow>
     e = ZeroDivisionError \<and>
     \<not> stringWidth env reg_code ''Helvetica-Bold'' 7 \<le> available \<and>
     stringWidth env reg_code ''Helvetica-Bold'' 6 = 0 \<and> available < 0 \<and>
     \<not> (stringWidth env (slice_to reg_code (split_point (unicode env) reg_code))
           ''Helvetica-Bold'' 6 \<le> available \<and>
        stringWidth env (slice_from reg_code (split_point (unicode env) reg_code))
           ''Helvetica-Bold'' 6 \<le> available)"
  by (auto simp: draw_code_text_def Let_def split: if_splits)


subsection \<open>The saved document\<close>

text \<open>
  When \<open>create_pdf_label\<close> returns normally, the QR encoder and the text-fitting step
  succeeded, the file could be written, and the file holds the border, the QR image,
  the logo if there is one, the caption and the code text, in this order.
\<close>

lemma draw_logo_no_text: "filter is_text_op (fst (draw_logo env wp hp w)) = []"
  by (simp add: draw_logo_def Let_def split: logo_state.splits)

lemma draw_logo_images:
  "filter is_image_op (fst (draw_logo env wp hp w)) = fst (draw_logo env wp hp w)"
  by (simp add: draw_logo_def Let_def split: logo_state.splits)

lemma draw_code_text_no_image:
  "draw_code_text env reg_code x y available = Inr ops \<Longrightarrow> filter is_image_op ops = []"
  by (auto simp: draw_code_text_def Let_def split: if_splits)

lemma create_pdf_label_Inr:
  assumes "create_pdf_label env reg_code output_path W H w = (Inr u, w')"
  shows "\<exists>qr_image code_text.
           generate_qr_code env reg_code = Inr qr_image \<and>
           draw_code_text env reg_code (text_start_x H) (code_y H) (available_text_width W H)
             = Inr code_text \<and>
           can_write env output_path \<and>
           files w' output_path = Some
             \<lparr>pagesize = (width_pts W, height_pts H),
              page_ops =
                [SetStrokeColor lightgrey, SetLineWidth 0.5,
                 Rect 2 2 (fsub (width_pts W) 4) (fsub (height_pts H) 4)] @
                [DrawImage qr_image margin (qr_y H) (qr_size H) (qr_size H) False] @
                fst (draw_logo env (width_pts W) (height_pts H) w) @
                [SetFont ''Helvetica-Bold'' 9, SetFillColor black,
                 DrawString (text_start_x H) (label_y H) (str ''Registration Code'')] @
                code_text\<rparr>"
  using assms
  by (auto simp: create_pdf_label_def Let_def split: sum.splits prod.splits if_splits)

lemma create_pdf_label_success:
  assumes "generate_qr_code env reg_code = Inr qr_image"
    and "draw_code_text env reg_code (text_start_x H) (code_y H) (available_text_width W H)
           = Inr code_text"
    and "can_write env output_path"
  shows "fst (create_pdf_label env reg_code output_path W H w) = Inr ()"
  using assms by (simp add: create_pdf_label_def Let_def split: prod.splits)

section \<open>Evaluating the examples\<close>

text \<open>
  The examples: the 17-character code of the usage text on the default label and on
  a 1 x 1 inch label, a 16-character code with a run of hyphens on a 1.125 x 0.5 inch
  label, and a 29-character code of wide and narrow letters on a 1 x 0.5 inch label.
  The label sizes are doubles; widths and geometry are evaluated in doubles.
\<close>

lemmas float_defs =
  double_def exponent_def round_half_even_def bit_length.simps Let_def
  fadd_def fsub_def fmul_def fdiv_def py_float_def

lemmas geometry_defs =
  available_text_width_def text_start_x_def code_y_def label_y_def qr_y_def qr_size_def
  width_pts_def height_pts_def margin_def inch_def

lemmas demo_defs =
  helvetica_bold_width_def helvetica_bold_glyph_def str_def py_ord_def

lemmas python_defs =
  slice_to_def slice_from_def py_range_def py_int_def

lemma demo_env_simps:
  "unicode demo_env = ascii_db"
  "stringWidth demo_env = helvetica_bold_width"
  "qrcode_png demo_env = (\<lambda>settings data. Some data)"
  "logo_file demo_env = LogoMissing"
  "can_write demo_env = (\<lambda>path. True)"
  by (simp_all add: demo_env_def)

lemma demo_split_16: "split_point (unicode demo_env) (str ''R57NX------8AAFC'') = 6"
  by (simp add: demo_env_simps split_point_def logical_break_def python_defs ascii_db_def
      str_def py_ord_def upto_rec1)

lemma demo_split_29:
  "split_point (unicode demo_env) (str ''WWWWWWWWiiiiiiiiiiiiiiiiiiii1'') = 14"
  by (simp add: demo_env_simps split_point_def logical_break_def python_defs ascii_db_def
      str_def py_ord_def upto_rec1)

lemma demo_fits_7:
  "stringWidth demo_env (str ''R57NX98AAFC62AF2A'') ''Helvetica-Bold'' 7
     \<le> available_text_width 2.625 1"
  by (simp add: demo_env_simps geometry_defs float_defs demo_defs)

lemma demo_16_widths:
  "\<not> stringWidth demo_env (str ''R57NX------8AAFC'') ''Helvetica-Bold'' 7
       \<le> available_text_width 1.125 0.5"
  "\<not> stringWidth demo_env (str ''R57NX------8AAFC'') ''Helvetica-Bold'' 6
       \<le> available_text_width 1.125 0.5"
  "stringWidth demo_env (str ''R57NX-'') ''Helvetica-Bold'' 6 \<le> available_text_width 1.125 0.5"
  "stringWidth demo_env (str ''-----8AAFC'') ''Helvetica-Bold'' 6
     \<le> available_text_width 1.125 0.5"
  by (simp_all add: demo_env_simps geometry_defs float_defs demo_defs)

lemma demo_16_lines:
  "slice_to (str ''R57NX------8AAFC'') 6 = str ''R57NX-''"
  "slice_from (str ''R57NX------8AAFC'') 6 = str ''-----8AAFC''"
  by (simp_all add: python_defs str_def)

lemma demo_29_widths:
  "\<not> stringWidth demo_env (str ''WWWWWWWWiiiiiiiiiiiiiiiiiiii1'') ''Helvetica-Bold'' 7
       \<le> available_text_width 1 0.5"
  "\<not> stringWidth demo_env (str ''WWWWWWWWiiiiiiiiiiiiiiiiiiii1'') ''Helvetica-Bold'' 6
       \<le> available_text_width 1 0.5"
  "\<not> stringWidth demo_env (str ''WWWWWWWWiiiiii'') ''Helvetica-Bold'' 6
       \<le> available_text_width 1 0.5"
  "stringWidth demo_env (str ''WWWWWWWWiiiiiiiiiiiiiiiiiiii1'') ''Helvetica-Bold'' 6 \<noteq> 0"
  "\<not> stringWidth demo_env (str ''WWWWW...'') ''Helvetica-Bold'' 6 \<le> available_text_width 1 0.5"
  "0 \<le> available_text_width 1 0.5"
  by (simp_all add: demo_env_simps geometry_defs float_defs demo_defs)

lemma demo_29_lines:
  "slice_to (str ''WWWWWWWWiiiiiiiiiiiiiiiiiiii1'') 14 = str ''WWWWWWWWiiiiii''"
  "slice_to (str ''WWWWWWWWiiiiiiiiiiiiiiiiiiii1'') 5 = str ''WWWWW''"
  "str ''WWWWW'' @ str ''...'' = str ''WWWWW...''"
  "int (length (str ''WWWWWWWWiiiiiiiiiiiiiiiiiiii1'')) = 29"
  by (simp_all add: python_defs str_def)

lemma demo_29_budget:
  "max_chars 29 (available_text_width 1 0.5)
     (stringWidth demo_env (str ''WWWWWWWWiiiiiiiiiiiiiiiiiiii1'') ''Helvetica-Bold'' 6) = 5"
  by (simp add: max_chars_def demo_env_simps geometry_defs float_defs demo_defs python_defs)

lemma demo_two_lines:
  "draw_code_text demo_env (str ''R57NX------8AAFC'') x y (available_text_width 1.125 0.5) =
     Inr [SetFont ''Helvetica-Bold'' 7, SetFont ''Helvetica-Bold'' 6,
          DrawString x (fadd y (fmul (double 0.05) inch)) (str ''R57NX-''),
          DrawString x (fsub y (fmul (double 0.05) inch)) (str ''-----8AAFC'')]"
proof -
  have "draw_code_text demo_env (str ''R57NX------8AAFC'') x y (available_text_width 1.125 0.5) =
     Inr [SetFont ''Helvetica-Bold'' 7, SetFont ''Helvetica-Bold'' 6,
          DrawString x (fadd y (fmul (double 0.05) inch))
            (slice_to (str ''R57NX------8AAFC'')
               (split_point (unicode demo_env) (str ''R57NX------8AAFC''))),
          DrawString x (fsub y (fmul (double 0.05) inch))
            (slice_from (str ''R57NX------8AAFC'')
               (split_point (unicode demo_env) (str ''R57NX------8AAFC'')))]"
    by (rule draw_code_text_two_lines)
       (simp_all only: demo_split_16 demo_16_lines demo_16_widths not_False_eq_True)
  then show ?thesis
    by (simp only: demo_split_16 demo_16_lines)
qed

lemma demo_truncated:
  "draw_code_text demo_env (str ''WWWWWWWWiiiiiiiiiiiiiiiiiiii1'') x y (available_text_width 1 0.5) =
     Inr [SetFont ''Helvetica-Bold'' 7, SetFont ''Helvetica-Bold'' 6,
          DrawString x y (str ''WWWWW...'')]"
proof -
  let ?code = "str ''WWWWWWWWiiiiiiiiiiiiiiiiiiii1''"
  have "draw_code_text demo_env ?code x y (available_text_width 1 0.5) =
     Inr [SetFont ''Helvetica-Bold'' 7, SetFont ''Helvetica-Bold'' 6,
          DrawString x y
            (slice_to ?code
               (max_chars (int (length ?code)) (available_text_width 1 0.5)
                  (stringWidth demo_env ?code ''Helvetica-Bold'' 6))
             @ str ''...'')]"
    by (rule draw_code_text_truncated)
       (simp_all only: demo_split_29 demo_29_lines demo_29_widths not_False_eq_True
          simp_thms)
  then show ?thesis
    by (simp only: demo_29_lines demo_29_budget)
qed

lemma demo_split_17: "split_point ascii_db (str ''R57NX98A-FC62AF2A'') = 8"
  by (simp add: split_point_def logical_break_def python_defs ascii_db_def str_def py_ord_def
      upto_rec1)

lemma demo_17_narrow:
  "\<not> stringWidth demo_env (str ''R57NX98AAFC62AF2A'') ''Helvetica-Bold'' 7
       \<le> available_text_width 1 1"
  "\<not> stringWidth demo_env (str ''R57NX98AAFC62AF2A'') ''Helvetica-Bold'' 6
       \<le> available_text_width 1 1"
  "\<not> stringWidth demo_env (str ''R57NX98A'') ''Helvetica-Bold'' 6 \<le> available_text_width 1 1"
  "stringWidth demo_env (str ''R57NX98AAFC62AF2A'') ''Helvetica-Bold'' 6 \<noteq> 0"
  "available_text_width 1 1 < 0"
  by (simp_all add: demo_env_simps geometry_defs float_defs demo_defs)


lemma demo_default_label:
  "create_pdf_label demo_env (str ''R57NX98AAFC62AF2A'') (str ''device_label.pdf'') 2.625 1
      empty_world =
   (Inr (), snd (create_pdf_label demo_env (str ''R57NX98AAFC62AF2A'')
                   (str ''device_label.pdf'') 2.625 1 empty_world))"
proof -
  have qr: "generate_qr_code demo_env (str ''R57NX98AAFC62AF2A'') =
              Inr (str ''R57NX98AAFC62AF2A'')"
    by (simp add: generate_qr_code_def demo_env_simps)
  from create_pdf_label_success [OF qr draw_code_text_size_7 [OF demo_fits_7]] show ?thesis
    by (simp add: demo_env_simps prod_eq_iff)
qed

lemma demo_truncated_label:
  "create_pdf_label demo_env (str ''WWWWWWWWiiiiiiiiiiiiiiiiiiii1'') (str ''device_label.pdf'')
      1 0.5 empty_world =
   (Inr (), snd (create_pdf_label demo_env (str ''WWWWWWWWiiiiiiiiiiiiiiiiiiii1'')
                   (str ''device_label.pdf'') 1 0.5 empty_world))"
proof -
  have "generate_qr_code demo_env (str ''WWWWWWWWiiiiiiiiiiiiiiiiiiii1'') =
          Inr (str ''WWWWWWWWiiiiiiiiiiiiiiiiiiii1'')"
    by (simp add: generate_qr_code_def demo_env_simps)
  from create_pdf_label_success [OF this demo_truncated] show ?thesis
    by (simp add: demo_env_simps prod_eq_iff)
qed


section \<open>The text-fitting chain\<close>

subsection \<open>Single line at size 7\<close>

text \<open>
  C7. When the code's width at bold size 7 is at most the available text width (both
  as the code computes them, in doubles), the text-fitting step sets the font to size
  7 and draws the full code once, and nothing else: the saved document's text calls
  are the caption at size 9 and the full code at size 7, so no call of the size-6,
  two-line or truncation steps is made.
\<close>

theorem fits_at_size_7:
  assumes "stringWidth env reg_code ''Helvetica-Bold'' 7 \<le> available_text_width W H"
    and "create_pdf_label env reg_code output_path W H w = (Inr u, w')"
  shows "draw_code_text env reg_code (text_start_x H) (code_y H) (available_text_width W H) =
           Inr [SetFont ''Helvetica-Bold'' 7, DrawString (text_start_x H) (code_y H) reg_code]
         \<and> (\<exists>doc. files w' output_path = Some doc \<and>
                 filter is_text_op (page_ops doc) =
                   [SetFont ''Helvetica-Bold'' 9,
                    DrawString (text_start_x H) (label_y H) (str ''Registration Code''),
                    SetFont ''Helvetica-Bold'' 7,
                    DrawString (text_start_x H) (code_y H) reg_code])"
proof -
  note step = draw_code_text_size_7 [OF assms(1), of "text_start_x H" "code_y H"]
  from create_pdf_label_Inr [OF assms(2)] step show ?thesis
    by (auto simp: draw_logo_no_text)
qed


text \<open>
  The code \<open>R57NX98AAFC62AF2A\<close> is about 75.8 points wide at size 7 and fits the
  109.8 points of the default label.
\<close>

theorem fits_at_size_7_witness:
  "draw_code_text demo_env (str ''R57NX98AAFC62AF2A'') (text_start_x 1) (code_y 1)
      (available_text_width 2.625 1) =
     Inr [SetFont ''Helvetica-Bold'' 7,
          DrawString (text_start_x 1) (code_y 1) (str ''R57NX98AAFC62AF2A'')]
   \<and> (\<exists>doc. files (snd (create_pdf_label demo_env (str ''R57NX98AAFC62AF2A'')
                            (str ''device_label.pdf'') 2.625 1 empty_world))
                 (str ''device_label.pdf'') = Some doc \<and>
              filter is_text_op (page_ops doc) =
                [SetFont ''Helvetica-Bold'' 9,
                 DrawString (text_start_x 1) (label_y 1) (str ''Registration Code''),
                 SetFont ''Helvetica-Bold'' 7,
                 DrawString (text_start_x 1) (code_y 1) (str ''R57NX98AAFC62AF2A'')])"
  using fits_at_size_7 [OF demo_fits_7 demo_default_label] .


subsection \<open>Two lines\<close>

text \<open>
  C3. When the code is too wide for one line at sizes 7 and 6 and both halves of the
  split fit at size 6, the text-fitting step draws two lines, the code up to the split
  point and the code from the split point, and the first line followed by the second
  is the original code, whatever the split point.
\<close>

theorem two_lines_concatenate:
  assumes "\<not> stringWidth env reg_code ''Helvetica-Bold'' 7 \<le> available"
    and "\<not> stringWidth env reg_code ''Helvetica-Bold'' 6 \<le> available"
    and "stringWidth env (slice_to reg_code (split_point (unicode env) reg_code))
           ''Helvetica-Bold'' 6 \<le> available"
    and "stringWidth env (slice_from reg_code (split_point (unicode env) reg_code))
           ''Helvetica-Bold'' 6 \<le> available"
  shows "\<exists>line1 line2.
           draw_code_text env reg_code x y available =
             Inr [SetFont ''Helvetica-Bold'' 7, SetFont ''Helvetica-Bold'' 6,
                  DrawString x (fadd y (fmul (double 0.05) inch)) line1,
                  DrawString x (fsub y (fmul (double 0.05) inch)) line2] \<and>
           line1 = slice_to reg_code (split_point (unicode env) reg_code) \<and>
           line2 = slice_from reg_code (split_point (unicode env) reg_code) \<and>
           line1 @ line2 = reg_code"
  using draw_code_text_two_lines [OF assms] slice_to_from by blast


text \<open>
  On a 1.125 x 0.5 inch label the code \<open>R57NX------8AAFC\<close> is drawn as the two lines
  \<open>R57NX-\<close> and \<open>-----8AAFC\<close>.
\<close>

theorem two_lines_concatenate_witness:
  "draw_code_text demo_env (str ''R57NX------8AAFC'') (text_start_x 0.5) (code_y 0.5)
      (available_text_width 1.125 0.5) =
     Inr [SetFont ''Helvetica-Bold'' 7, SetFont ''Helvetica-Bold'' 6,
          DrawString (text_start_x 0.5) (fadd (code_y 0.5) (fmul (double 0.05) inch))
            (str ''R57NX-''),
          DrawString (text_start_x 0.5) (fsub (code_y 0.5) (fmul (double 0.05) inch))
            (str ''-----8AAFC'')]
   \<and> str ''R57NX-'' @ str ''-----8AAFC'' = str ''R57NX------8AAFC''"
proof -
  have a: "\<not> stringWidth demo_env (str ''R57NX------8AAFC'') ''Helvetica-Bold'' 7
             \<le> available_text_width 1.125 0.5"
    by (rule demo_16_widths)
  have b: "\<not> stringWidth demo_env (str ''R57NX------8AAFC'') ''Helvetica-Bold'' 6
             \<le> available_text_width 1.125 0.5"
    by (rule demo_16_widths)
  have c: "stringWidth demo_env
             (slice_to (str ''R57NX------8AAFC'')
                (split_point (unicode demo_env) (str ''R57NX------8AAFC'')))
             ''Helvetica-Bold'' 6 \<le> available_text_width 1.125 0.5"
    by (simp only: demo_split_16 demo_16_lines demo_16_widths)
  have d: "stringWidth demo_env
             (slice_from (str ''R57NX------8AAFC'')
                (split_point (unicode demo_env) (str ''R57NX------8AAFC'')))
             ''Helvetica-Bold'' 6 \<le> available_text_width 1.125 0.5"
    by (simp only: demo_split_16 demo_16_lines demo_16_widths)
  from two_lines_concatenate [OF a b c d, of "text_start_x 0.5" "code_y 0.5"]
  show ?thesis
    by (auto simp only: demo_split_16 demo_16_lines)
qed

subsection \<open>The split point\<close>

lemma natural_boundary_logical_break:
  "natural_boundary ud reg_code i \<Longrightarrow> logical_break ud reg_code i"
  by (auto simp: natural_boundary_def logical_break_def)

lemma find_break_upto_None:
  "find_break ud c [a..b] = None \<Longrightarrow> a \<le> j \<Longrightarrow> j \<le> b \<Longrightarrow> \<not> logical_break ud c j"
proof (induction a b rule: upto.induct)
  case (1 i k)
  then show ?case
    by (cases "i \<le> k"; cases "j = i") (auto simp: upto.simps [of i k] split: if_splits)
qed

lemma find_break_upto_Some:
  "find_break ud c [a..b] = Some k \<Longrightarrow>
     a \<le> k \<and> k \<le> b \<and> logical_break ud c k \<and>
     (\<forall>j. a \<le> j \<and> j < k \<longrightarrow> \<not> logical_break ud c j)"
proof (induction a b rule: upto.induct)
  case (1 i l)
  show ?case
  proof (cases "i \<le> l")
    case False
    with "1.prems" show ?thesis by (simp add: upto.simps [of i l])
  next
    case True
    show ?thesis
    proof (cases "logical_break ud c i")
      case True
      with \<open>i \<le> l\<close> "1.prems" show ?thesis
        by (auto simp: upto.simps [of i l])
    next
      case False
      with \<open>i \<le> l\<close> "1.prems" have "find_break ud c [i + 1..l] = Some k"
        by (simp add: upto.simps [of i l])
      from "1.IH" [OF \<open>i \<le> l\<close> this]
      have ih: "i + 1 \<le> k" "k \<le> l" "logical_break ud c k"
        "\<And>j. i + 1 \<le> j \<Longrightarrow> j < k \<Longrightarrow> \<not> logical_break ud c j"
        by auto
      have "\<not> logical_break ud c j" if "i \<le> j" "j < k" for j
      proof (cases "j = i")
        case True
        with False show ?thesis by simp
      next
        case False
        with that have "i + 1 \<le> j" by simp
        with that ih(4) show ?thesis by blast
      qed
      with ih show ?thesis by auto
    qed
  qed
qed

lemma split_point_window:
  "split_point ud reg_code =
     (case find_break ud reg_code
             [int (length reg_code) div 2 - 2..int (length reg_code) div 2 + 2] of
        Some i \<Rightarrow> i
      | None \<Rightarrow> int (length reg_code) div 2)"
proof -
  have "m + 3 - 1 = m + 2" for m :: int
    by simp
  then show ?thesis
    unfolding split_point_def py_range_def Let_def by (simp only:)
qed

lemma demo_no_boundary_16:
  "\<not> list_ex (natural_boundary ascii_db (str ''R57NX------8AAFC'')) (py_range (8 - 2) (8 + 3))"
  by (simp add: natural_boundary_def python_defs ascii_db_def str_def py_ord_def upto_rec1)

text \<open>
  C2 as stated fails. The code \<open>R57NX------8AAFC\<close> has 16 characters and fits a
  1.125 x 0.5 inch label at neither size 7 nor size 6. Its midpoint is 8, and the
  characters at positions 5 to 10 are all hyphens, so no position of the window 6 to 10
  is a boundary between an alphanumeric and a non-alphanumeric character. The claim
  puts the split at 8; the code splits at 6 and draws \<open>R57NX-\<close> and \<open>-----8AAFC\<close>.
\<close>

theorem split_point_counterexample:
  "\<not> stringWidth demo_env (str ''R57NX------8AAFC'') ''Helvetica-Bold'' 7
       \<le> available_text_width 1.125 0.5 \<and>
   \<not> stringWidth demo_env (str ''R57NX------8AAFC'') ''Helvetica-Bold'' 6
       \<le> available_text_width 1.125 0.5 \<and>
   int (length (str ''R57NX------8AAFC'')) div 2 = 8 \<and>
   \<not> list_ex (natural_boundary (unicode demo_env) (str ''R57NX------8AAFC''))
        (py_range (8 - 2) (8 + 3)) \<and>
   split_point (unicode demo_env) (str ''R57NX------8AAFC'') = 6 \<and>
   draw_code_text demo_env (str ''R57NX------8AAFC'') (text_start_x 0.5) (code_y 0.5)
      (available_text_width 1.125 0.5) =
     Inr [SetFont ''Helvetica-Bold'' 7, SetFont ''Helvetica-Bold'' 6,
          DrawString (text_start_x 0.5) (fadd (code_y 0.5) (fmul (double 0.05) inch))
            (str ''R57NX-''),
          DrawString (text_start_x 0.5) (fsub (code_y 0.5) (fmul (double 0.05) inch))
            (str ''-----8AAFC'')]"
proof -
  have c: "int (length (str ''R57NX------8AAFC'')) div 2 = 8"
    by (simp add: str_def)
  have d: "\<not> list_ex (natural_boundary (unicode demo_env) (str ''R57NX------8AAFC''))
        (py_range (8 - 2) (8 + 3))"
    using demo_no_boundary_16 by (simp add: demo_env_simps)
  from demo_16_widths(1) demo_16_widths(2) c d demo_split_16
    demo_two_lines [of "text_start_x 0.5" "code_y 0.5"]
  show ?thesis by blast
qed

text \<open>
  C2, amended. With \<open>m\<close> the midpoint \<open>len(code) // 2\<close>, the split point \<open>k\<close> is the
  first position of the window \<open>m - 2\<close> to \<open>m + 2\<close>, in ascending order, that lies
  strictly inside the code and has a non-alphanumeric character just before it or at
  it (\<open>logical_break\<close>): every boundary between an alphanumeric and a
  non-alphanumeric character is such a position, and so is a position between two
  non-alphanumeric characters. If the window has no such position, the split point is
  exactly \<open>m\<close>.
\<close>

theorem split_point_first_logical_break:
  assumes "m = int (length reg_code) div 2" and "k = split_point ud reg_code"
  shows "if \<exists>i. m - 2 \<le> i \<and> i \<le> m + 2 \<and> logical_break ud reg_code i
         then m - 2 \<le> k \<and> k \<le> m + 2 \<and> logical_break ud reg_code k \<and>
              (\<forall>j. m - 2 \<le> j \<and> j < k \<longrightarrow> \<not> logical_break ud reg_code j)
         else k = m"
proof (cases "find_break ud reg_code [m - 2..m + 2]")
  case None
  then have "\<not> (\<exists>i. m - 2 \<le> i \<and> i \<le> m + 2 \<and> logical_break ud reg_code i)"
    using find_break_upto_None by blast
  moreover from None assms have "k = m"
    by (simp only: split_point_window option.case)
  ultimately show ?thesis by simp
next
  case (Some i)
  with assms have "k = i"
    by (simp only: split_point_window option.case)
  with Some have "find_break ud reg_code [m - 2..m + 2] = Some k"
    by simp
  from find_break_upto_Some [OF this] show ?thesis
    by auto
qed

text \<open>
  The 17-character code \<open>R57NX98A-FC62AF2A\<close> has its hyphen at index 8: the split
  point is the midpoint 8, a logical break, and position 6 of the window is none.
\<close>

theorem split_point_first_logical_break_witness:
  "8 - 2 \<le> (8::int) \<and> (8::int) \<le> 8 + 2 \<and>
   logical_break ascii_db (str ''R57NX98A-FC62AF2A'') 8 \<and>
   \<not> logical_break ascii_db (str ''R57NX98A-FC62AF2A'') 6"
proof -
  have m: "(8::int) = int (length (str ''R57NX98A-FC62AF2A'')) div 2"
    by (simp add: str_def)
  have k: "(8::int) = split_point ascii_db (str ''R57NX98A-FC62AF2A'')"
    by (simp add: demo_split_17)
  have ex: "\<exists>i. (8::int) - 2 \<le> i \<and> i \<le> 8 + 2 \<and>
              logical_break ascii_db (str ''R57NX98A-FC62AF2A'') i"
    by (rule exI [of _ 8]) (simp add: logical_break_def ascii_db_def str_def py_ord_def)
  from split_point_first_logical_break [OF m k] ex show ?thesis
    by simp
qed

subsection \<open>Truncation\<close>

text \<open>
  C1 as stated fails. On a 1 x 0.5 inch label (25.2 points of text width) the
  29-character code of eight \<open>W\<close>, twenty \<open>i\<close> and a \<open>1\<close> is about 82 points wide
  at size 6 and its first half does not fit, so it is truncated. The character budget
  is \<open>floor(29 * 25.2 / 82.008) - 3 = 5\<close> and the line drawn is \<open>WWWWW...\<close>, as
  the claim says, but that line is about 33.3 points wide: the budget is computed from
  the average character width of the whole code, and the kept prefix is wider than
  average.
\<close>

theorem truncation_width_counterexample:
  "\<not> stringWidth demo_env (str ''WWWWWWWWiiiiiiiiiiiiiiiiiiii1'') ''Helvetica-Bold'' 6
       \<le> available_text_width 1 0.5 \<and>
   \<not> stringWidth demo_env
         (slice_to (str ''WWWWWWWWiiiiiiiiiiiiiiiiiiii1'')
            (split_point (unicode demo_env) (str ''WWWWWWWWiiiiiiiiiiiiiiiiiiii1'')))
         ''Helvetica-Bold'' 6
       \<le> available_text_width 1 0.5 \<and>
   draw_code_text demo_env (str ''WWWWWWWWiiiiiiiiiiiiiiiiiiii1'') (text_start_x 0.5) (code_y 0.5)
      (available_text_width 1 0.5) =
     Inr [SetFont ''Helvetica-Bold'' 7, SetFont ''Helvetica-Bold'' 6,
          DrawString (text_start_x 0.5) (code_y 0.5) (str ''WWWWW...'')] \<and>
   \<lfloor>real (length (str ''WWWWWWWWiiiiiiiiiiiiiiiiiiii1'')) * available_text_width 1 0.5 /
      stringWidth demo_env (str ''WWWWWWWWiiiiiiiiiiiiiiiiiiii1'') ''Helvetica-Bold'' 6\<rfloor> - 3
     = 5 \<and>
   \<not> stringWidth demo_env (str ''WWWWW...'') ''Helvetica-Bold'' 6 \<le> available_text_width 1 0.5"
proof -
  have b: "\<not> stringWidth demo_env
         (slice_to (str ''WWWWWWWWiiiiiiiiiiiiiiiiiiii1'')
            (split_point (unicode demo_env) (str ''WWWWWWWWiiiiiiiiiiiiiiiiiiii1'')))
         ''Helvetica-Bold'' 6
       \<le> available_text_width 1 0.5"
    by (simp only: demo_split_29 demo_29_lines demo_29_widths not_False_eq_True)
  have d: "\<lfloor>real (length (str ''WWWWWWWWiiiiiiiiiiiiiiiiiiii1'')) * available_text_width 1 0.5 /
      stringWidth demo_env (str ''WWWWWWWWiiiiiiiiiiiiiiiiiiii1'') ''Helvetica-Bold'' 6\<rfloor> - 3
     = 5"
    by (simp add: demo_env_simps geometry_defs float_defs demo_defs)
  from demo_29_widths(2) b demo_truncated d demo_29_widths(5) show ?thesis by blast
qed


text \<open>
  The budget is computed in doubles and can differ from the exact floor: for 45
  characters, 73.8 points available and a width of 166.05 points the rounded quotient
  is 20.0, where the exact quotient is just below 20.
\<close>

lemma truncation_budget_rounding_example:
  "max_chars 45 (double 73.8) (double 166.05) = 17 \<and>
   \<lfloor>45 * double 73.8 / double 166.05\<rfloor> - 3 = 16"
  by (simp add: max_chars_def float_defs py_int_def)


text \<open>
  The budget can be negative. On a 1 x 1 inch label the available width is negative;
  for \<open>R57NX98AAFC62AF2A\<close> the quotient is about -1.88, \<open>int\<close> truncates it to -1,
  the budget is -4, and the slice \<open>reg_code[:-4]\<close> drops the last four characters:
  the line drawn is \<open>R57NX98AAFC62...\<close>.
\<close>

lemma truncation_negative_budget_example:
  "draw_code_text demo_env (str ''R57NX98AAFC62AF2A'') x y (available_text_width 1 1) =
     Inr [SetFont ''Helvetica-Bold'' 7, SetFont ''Helvetica-Bold'' 6,
          DrawString x y (str ''R57NX98AAFC62...'')]
   \<and> max_chars (int (length (str ''R57NX98AAFC62AF2A''))) (available_text_width 1 1)
        (stringWidth demo_env (str ''R57NX98AAFC62AF2A'') ''Helvetica-Bold'' 6) = - 4"
proof -
  let ?code = "str ''R57NX98AAFC62AF2A''"
  have sp: "split_point (unicode demo_env) ?code = 8"
    by (simp add: demo_env_simps split_point_def logical_break_def python_defs ascii_db_def
        str_def py_ord_def upto_rec1)
  have l1: "slice_to ?code 8 = str ''R57NX98A''"
    by (simp add: python_defs str_def)
  have k: "max_chars (int (length ?code)) (available_text_width 1 1)
        (stringWidth demo_env ?code ''Helvetica-Bold'' 6) = - 4"
    by (simp add: max_chars_def demo_env_simps geometry_defs float_defs demo_defs python_defs)
  have cut: "slice_to ?code (- 4) @ str ''...'' = str ''R57NX98AAFC62...''"
    by (simp add: python_defs str_def)
  have "draw_code_text demo_env ?code x y (available_text_width 1 1) =
     Inr [SetFont ''Helvetica-Bold'' 7, SetFont ''Helvetica-Bold'' 6,
          DrawString x y
            (slice_to ?code
               (max_chars (int (length ?code)) (available_text_width 1 1)
                  (stringWidth demo_env ?code ''Helvetica-Bold'' 6))
             @ str ''...'')]"
    by (rule draw_code_text_truncated)
       (simp_all only: sp l1 demo_17_narrow not_False_eq_True simp_thms)
  with k cut show ?thesis
    by (simp only:)
qed


text \<open>
  C1, amended. When the code fits at neither size 7 nor size 6, its two halves do
  not both fit at size 6, the available text width is not negative, the code has at
  most \<open>2 ^ 50\<close> characters and the character budget
  \<open>int(len(code) * available / width(code, 6)) - 3\<close>, with the product and the
  quotient rounded to doubles as the code computes them, is not negative, the single
  line drawn is the prefix of the code of that length followed by \<open>...\<close>, and the
  prefix is strictly shorter than the code. Nothing is asserted about the width of the
  line drawn.
\<close>

theorem truncation_prefix:
  assumes not7: "\<not> stringWidth env reg_code ''Helvetica-Bold'' 7 \<le> available"
    and not6: "\<not> stringWidth env reg_code ''Helvetica-Bold'' 6 \<le> available"
    and not2: "\<not> (stringWidth env (slice_to reg_code (split_point (unicode env) reg_code))
                     ''Helvetica-Bold'' 6 \<le> available \<and>
                  stringWidth env (slice_from reg_code (split_point (unicode env) reg_code))
                     ''Helvetica-Bold'' 6 \<le> available)"
    and nonneg: "0 \<le> available"
    and short: "length reg_code \<le> 2 ^ 50"
    and budget: "0 \<le> max_chars (int (length reg_code)) available
                       (stringWidth env reg_code ''Helvetica-Bold'' 6)"
  shows "draw_code_text env reg_code x y available =
           Inr [SetFont ''Helvetica-Bold'' 7, SetFont ''Helvetica-Bold'' 6,
                DrawString x y
                  (take (nat (max_chars (int (length reg_code)) available
                                (stringWidth env reg_code ''Helvetica-Bold'' 6))) reg_code
                   @ str ''...'')]
         \<and> nat (max_chars (int (length reg_code)) available
                   (stringWidth env reg_code ''Helvetica-Bold'' 6)) < length reg_code"
proof -
  let ?tw = "stringWidth env reg_code ''Helvetica-Bold'' 6"
  let ?k = "max_chars (int (length reg_code)) available ?tw"
  from not6 nonneg have lt: "available < ?tw" and nz: "?tw \<noteq> 0"
    by simp_all
  have "int (length reg_code) \<le> 2 ^ 50"
    using short by (metis of_nat_le_iff of_nat_numeral of_nat_power)
  then have "?k < int (length reg_code)"
    using nonneg lt by (intro max_chars_less) simp_all
  with budget have strict: "nat ?k < length reg_code"
    by simp
  from budget have "slice_to reg_code ?k = take (nat ?k) reg_code"
    by (simp add: slice_to_def)
  with draw_code_text_truncated [OF not7 not6 not2 nz, of x y] strict show ?thesis
    by simp
qed


text \<open>
  The 29-character code on the 1 x 0.5 inch label: the budget is 5.
\<close>

theorem truncation_prefix_witness:
  "draw_code_text demo_env (str ''WWWWWWWWiiiiiiiiiiiiiiiiiiii1'') (text_start_x 0.5) (code_y 0.5)
      (available_text_width 1 0.5) =
     Inr [SetFont ''Helvetica-Bold'' 7, SetFont ''Helvetica-Bold'' 6,
          DrawString (text_start_x 0.5) (code_y 0.5)
            (take 5 (str ''WWWWWWWWiiiiiiiiiiiiiiiiiiii1'') @ str ''...'')]
   \<and> (5::nat) < length (str ''WWWWWWWWiiiiiiiiiiiiiiiiiiii1'')"
proof -
  let ?code = "str ''WWWWWWWWiiiiiiiiiiiiiiiiiiii1''"
  let ?a = "available_text_width 1 0.5"
  let ?tw = "stringWidth demo_env ?code ''Helvetica-Bold'' 6"
  have not2: "\<not> (stringWidth demo_env (slice_to ?code (split_point (unicode demo_env) ?code))
                     ''Helvetica-Bold'' 6 \<le> ?a \<and>
                  stringWidth demo_env (slice_from ?code (split_point (unicode demo_env) ?code))
                     ''Helvetica-Bold'' 6 \<le> ?a)"
    by (simp only: demo_split_29 demo_29_lines demo_29_widths simp_thms)
  have short: "length ?code \<le> 2 ^ 50"
    by (simp add: str_def)
  have k: "max_chars (int (length ?code)) ?a ?tw = 5"
    by (simp only: demo_29_lines demo_29_budget)
  then have budget: "0 \<le> max_chars (int (length ?code)) ?a ?tw"
    by simp
  from truncation_prefix [OF demo_29_widths(1) demo_29_widths(2) not2 demo_29_widths(6) short
      budget, of "text_start_x 0.5" "code_y 0.5"]
  show ?thesis
    by (simp only: k) simp
qed


subsection \<open>Outcomes of the text-fitting step\<close>





text \<open>
  Without the hypothesis the step can raise: a direct call of the renderer with the
  empty code on a 1 x 1 inch label divides by the zero width. \<open>generate_label\<close>
  makes no such call, it rejects an empty code on both of its paths.
\<close>

lemma empty_code_direct_call:
  "draw_code_text demo_env [] x y (available_text_width 1 1) = Inl ZeroDivisionError"
proof -
  have sp: "split_point (unicode demo_env) [] = 0"
    by (simp add: split_point_def logical_break_def python_defs upto_rec1)
  have w: "stringWidth demo_env [] ''Helvetica-Bold'' 7 = 0"
    "stringWidth demo_env [] ''Helvetica-Bold'' 6 = 0"
    by (simp_all add: demo_env_simps helvetica_bold_width_def float_defs)
  have sl: "slice_to ([]::pystr) 0 = []" "slice_from ([]::pystr) 0 = []"
    by (simp_all add: python_defs)
  from demo_17_narrow(5) show ?thesis
    by (simp add: draw_code_text_def Let_def sp w sl)
qed

subsection \<open>The scannable image\<close>

text \<open>
  C8. In every document that \<open>create_pdf_label\<close> saves, the first image drawn is
  the one the QR encoder made from the full registration code, whichever text-fitting
  outcome was taken; the only other image is the logo, when there is one.
\<close>

theorem qr_encodes_full_code:
  assumes "create_pdf_label env reg_code output_path W H w = (Inr u, w')"
  shows "\<exists>qr_image doc.
           generate_qr_code env reg_code = Inr qr_image \<and>
           files w' output_path = Some doc \<and>
           filter is_image_op (page_ops doc) =
             DrawImage qr_image margin (qr_y H) (qr_size H) (qr_size H) False
               # fst (draw_logo env (width_pts W) (height_pts H) w)"
proof -
  from create_pdf_label_Inr [OF assms] obtain qr_image code_text where
    qr: "generate_qr_code env reg_code = Inr qr_image" and
    fitted: "draw_code_text env reg_code (text_start_x H) (code_y H) (available_text_width W H)
             = Inr code_text" and
    doc: "files w' output_path = Some
             \<lparr>pagesize = (width_pts W, height_pts H),
              page_ops =
                [SetStrokeColor lightgrey, SetLineWidth 0.5,
                 Rect 2 2 (fsub (width_pts W) 4) (fsub (height_pts H) 4)] @
                [DrawImage qr_image margin (qr_y H) (qr_size H) (qr_size H) False] @
                fst (draw_logo env (width_pts W) (height_pts H) w) @
                [SetFont ''Helvetica-Bold'' 9, SetFillColor black,
                 DrawString (text_start_x H) (label_y H) (str ''Registration Code'')] @
                code_text\<rparr>"
    by blast
  from doc qr show ?thesis
    by (simp add: draw_logo_images draw_code_text_no_image [OF fitted])
qed

text \<open>
  The truncated label of the 29-character code: the text line is \<open>WWWWW...\<close>, the
  image is made from all 29 characters.
\<close>

theorem qr_encodes_full_code_witness:
  "\<exists>doc. files (snd (create_pdf_label demo_env (str ''WWWWWWWWiiiiiiiiiiiiiiiiiiii1'')
                        (str ''device_label.pdf'') 1 0.5 empty_world))
              (str ''device_label.pdf'') = Some doc \<and>
         filter is_image_op (page_ops doc) =
           [DrawImage (str ''WWWWWWWWiiiiiiiiiiiiiiiiiiii1'') margin (qr_y 0.5)
              (qr_size 0.5) (qr_size 0.5) False]"
  using qr_encodes_full_code [OF demo_truncated_label]
  by (simp add: generate_qr_code_def draw_logo_def demo_env_simps)

section \<open>Properties of \<open>generate_label\<close>\<close>

text \<open>
  C9. For an input that is neither an address nor a registration code,
  \<open>generate_label\<close> returns \<open>None\<close>; its only effect is the error message, so the
  renderer is not called and no file is written.
\<close>

theorem unrecognized_input_rejected:
  assumes "\<not> is_ip_address device_input"
    and "\<not> is_registration_code (unicode env) device_input"
  shows "generate_label env device_input output_path W H username password w =
           (Inr None, print ErrorInvalidInput w)
         \<and> files (snd (generate_label env device_input output_path W H username password w))
             = files w"
  using assms by (simp add: generate_label_def print_def)

theorem unrecognized_input_rejected_witness:
  "generate_label demo_env (str ''not-an-address-or-code!'') (str ''device_label.pdf'') 2.625 1
      (str ''admin'') (str ''123456'') empty_world =
     (Inr None, print ErrorInvalidInput empty_world)"
proof -
  have a: "\<not> is_ip_address (str ''not-an-address-or-code!'')"
    by (simp add: is_ip_address_def re_match_def ip_pattern_def octet_def digit_to_def
        str_def py_ord_def eval_nat_numeral)
  have b: "\<not> is_registration_code (unicode demo_env) (str ''not-an-address-or-code!'')"
    by (simp add: is_registration_code_def demo_env_simps ascii_db_def str_def py_ord_def)
  from unrecognized_input_rejected [OF a b] show ?thesis
    by blast
qed

lemma fetch_device_data_files:
  "files (snd (fetch_device_data env ip username password w)) = files w"
  by (simp add: fetch_device_data_def Let_def print_def
      split: http_result.splits json_result.splits option.splits)

lemma demo_empty_qr_fetch:
  "fetch_device_data empty_qr_device (str ''192.168.1.100'') (str ''admin'') (str ''123456'')
      (print DetectedIpAddress empty_world) =
   (Inr (Some [], Some (str ''R57NX98AAFC62AF2A'')),
    snd (fetch_device_data empty_qr_device (str ''192.168.1.100'') (str ''admin'') (str ''123456'')
           (print DetectedIpAddress empty_world)))"
  by (simp add: prod_eq_iff fetch_device_data_def Let_def empty_qr_device_def demo_env_def
      strip_def ascii_db_def str_def py_ord_def)

text \<open>
  C10. In the address flow, when the fetch returns without an exception and the QR
  payload or the registration code is \<open>None\<close> or the empty string,
  \<open>generate_label\<close> prints the fetch-failure message and returns \<open>None\<close>, and no
  file is written: an empty string is treated as a missing value.
\<close>

theorem empty_fetch_is_failure:
  assumes "is_ip_address device_input"
    and "fetch_device_data env device_input username password (print DetectedIpAddress w) =
           (Inr (qr_svg, reg_code), w1)"
    and "qr_svg = None \<or> qr_svg = Some [] \<or> reg_code = None \<or> reg_code = Some []"
  shows "generate_label env device_input output_path W H username password w =
           (Inr None, print FailedToFetch w1)
         \<and> files (snd (generate_label env device_input output_path W H username password w))
             = files w"
proof -
  from assms(3) have "falsy qr_svg \<or> falsy reg_code"
    by (auto simp: falsy_def)
  with assms(1,2) have res:
    "generate_label env device_input output_path W H username password w =
       (Inr None, print FailedToFetch w1)"
    by (simp add: generate_label_def)
  have "files w1 = files (print DetectedIpAddress w)"
    using fetch_device_data_files [of env device_input username password
        "print DetectedIpAddress w"] assms(2)
    by simp
  then have "files (print FailedToFetch w1) = files w"
    by (simp add: print_def)
  with res show ?thesis by simp
qed

text \<open>
  The device at \<open>192.168.1.100\<close> answers the QR request with status 200 and an empty
  body, and the registration-code request with a code.
\<close>

theorem empty_fetch_is_failure_witness:
  "generate_label empty_qr_device (str ''192.168.1.100'') (str ''device_label.pdf'') 2.625 1
      (str ''admin'') (str ''123456'') empty_world =
     (Inr None,
      print FailedToFetch
        (snd (fetch_device_data empty_qr_device (str ''192.168.1.100'') (str ''admin'')
                (str ''123456'') (print DetectedIpAddress empty_world))))
   \<and> files (snd (generate_label empty_qr_device (str ''192.168.1.100'') (str ''device_label.pdf'')
                   2.625 1 (str ''admin'') (str ''123456'') empty_world)) = files empty_world"
proof -
  have empty: "Some [] = None \<or> Some [] = Some ([]::pystr) \<or>
     Some (str ''R57NX98AAFC62AF2A'') = None \<or> Some (str ''R57NX98AAFC62AF2A'') = Some []"
    by simp
  from empty_fetch_is_failure [OF demo_is_ip_address demo_empty_qr_fetch empty]
  show ?thesis .
qed

end
